theory Spec2Isabelle
  imports Main
begin

section \<open>Error values (error.go)\<close>

text \<open>
  A Go \<open>error\<close> is an interface value. Three shapes of it matter to the dispatcher:
  an opaque error made by \<open>errors.New\<close>, an error that wraps another one
  (\<open>fmt.Errorf\<close> with \<open>%w\<close>), and the repository's own \<open>*apiError\<close>, which
  carries a status code, an optional cause and the user-facing messages.
  A Go slice of strings is modelled by the list of its elements.
\<close>

datatype error =
    ErrorsNew string
  | Errorf string error
  | IsAPIError apiError
and apiError =
    ApiError (statusCode: int) (cause: "error option") (messages: "string list")

definition NewAPIError :: "int \<Rightarrow> error option \<Rightarrow> string list \<Rightarrow> apiError" where
  "NewAPIError sc c ms = ApiError sc c ms"

definition StatusCode :: "apiError \<Rightarrow> int" where
  "StatusCode e = statusCode e"

definition Unwrap :: "apiError \<Rightarrow> error option" where
  "Unwrap e = cause e"

definition Errors :: "apiError \<Rightarrow> string list" where
  "Errors e = messages e"

text \<open>
  \<open>errors.As(err, &apiError)\<close> with a target of interface type \<open>APIError\<close>: the
  first error of the \<open>Unwrap\<close> chain that is an \<open>*apiError\<close>. An \<open>*apiError\<close>
  matches at once, before its own cause is looked at; \<open>errors.New\<close> has nothing to unwrap.
  On a nil error \<open>errors.As\<close> is false.
\<close>

fun errors_As :: "error \<Rightarrow> apiError option" where
  "errors_As (IsAPIError e) = Some e"
| "errors_As (Errorf s e) = errors_As e"
| "errors_As (ErrorsNew s) = None"

definition errors_As_opt :: "error option \<Rightarrow> apiError option" where
  "errors_As_opt err = (case err of None \<Rightarrow> None | Some e \<Rightarrow> errors_As e)"

section \<open>The response sink as an interface\<close>

text \<open>
  \<open>http.ResponseWriter\<close> is an interface of the standard library with the methods
  \<open>Header()\<close>, \<open>Write\<close> and \<open>WriteHeader\<close>. A value of it is modelled as its
  method table over the implementation's state \<open>'s\<close>; the only use the repository makes
  of \<open>Header()\<close> is \<open>Header().Set(key, value)\<close>.
\<close>

record 's http_ResponseWriter =
  hHeaderSet :: "'s \<Rightarrow> string \<Rightarrow> string \<Rightarrow> 's"
  hWrite :: "'s \<Rightarrow> string \<Rightarrow> (int \<times> error option) \<times> 's"
  hWriteHeader :: "'s \<Rightarrow> int \<Rightarrow> 's"

section \<open>The tracked response writer (response_writer.go)\<close>

record 's responseWriter =
  ResponseWriter :: 's
  isWritten :: bool
  status :: int

definition responseWriter_WriteHeader ::
  "'s http_ResponseWriter \<Rightarrow> 's responseWriter \<Rightarrow> int \<Rightarrow> 's responseWriter" where
  "responseWriter_WriteHeader U w st =
     w\<lparr>ResponseWriter := hWriteHeader U (ResponseWriter w) st, status := st, isWritten := True\<rparr>"

definition responseWriter_Write ::
  "'s http_ResponseWriter \<Rightarrow> 's responseWriter \<Rightarrow> string \<Rightarrow> (int \<times> error option) \<times> 's responseWriter" where
  "responseWriter_Write U w b =
     (case hWrite U (ResponseWriter w) b of
        (res, s') \<Rightarrow> (res, w\<lparr>ResponseWriter := s', isWritten := True\<rparr>))"

text \<open>
  \<open>*responseWriter\<close> embeds the underlying writer, so it is itself an
  \<open>http.ResponseWriter\<close>: \<open>Header\<close> is promoted from the embedded value, the other two
  methods are the ones above.
\<close>

definition tracked :: "'s http_ResponseWriter \<Rightarrow> 's responseWriter http_ResponseWriter" where
  "tracked U =
     \<lparr> hHeaderSet = (\<lambda>w k v. w\<lparr>ResponseWriter := hHeaderSet U (ResponseWriter w) k v\<rparr>),
       hWrite = responseWriter_Write U,
       hWriteHeader = responseWriter_WriteHeader U \<rparr>"

section \<open>Handlers\<close>

text \<open>
  A handler is arbitrary Go code that is given a response writer and returns an error or
  nil. Towards the dispatcher it is the sequence of calls it makes on that writer, each of
  which may depend on what the earlier \<open>Write\<close> calls returned, followed by its return
  value.
\<close>

datatype hprog =
    Return "error option"
  | DoWriteHeader int hprog
  | DoWrite string "int \<times> error option \<Rightarrow> hprog"
  | DoHeaderSet string string hprog

primrec run :: "'w http_ResponseWriter \<Rightarrow> hprog \<Rightarrow> 'w \<Rightarrow> error option \<times> 'w" where
  "run U (Return e) w = (e, w)"
| "run U (DoWriteHeader c k) w = run U k (hWriteHeader U w c)"
| "run U (DoWrite b k) w = (case hWrite U w b of (res, w') \<Rightarrow> run U (k res) w')"
| "run U (DoHeaderSet key v k) w = run U k (hHeaderSet U w key v)"

text \<open>Whether the handler calls \<open>WriteHeader\<close> or \<open>Write\<close> at all before it returns.\<close>

primrec wrote :: "hprog \<Rightarrow> bool" where
  "wrote (Return e) = False"
| "wrote (DoWriteHeader c k) = True"
| "wrote (DoWrite b k) = True"
| "wrote (DoHeaderSet key v k) = wrote k"

text \<open>The same handler, returning \<open>e\<close> wherever it returns.\<close>

primrec returning :: "error option \<Rightarrow> hprog \<Rightarrow> hprog" where
  "returning e (Return e') = Return e"
| "returning e (DoWriteHeader c k) = DoWriteHeader c (returning e k)"
| "returning e (DoWrite b k) = DoWrite b (\<lambda>res. returning e (k res))"
| "returning e (DoHeaderSet key v k) = DoHeaderSet key v (returning e k)"

text \<open>A connection that is gone: every \<open>Write\<close> fails and nothing is stored.\<close>

definition brokenConn :: "unit http_ResponseWriter" where
  "brokenConn =
     \<lparr> hHeaderSet = (\<lambda>s k v. s),
       hWrite = (\<lambda>s b. ((0, Some (ErrorsNew ''write: broken pipe'')), s)),
       hWriteHeader = (\<lambda>s c. s) \<rparr>"

section \<open>Collaborators outside the repository\<close>

text \<open>
  The JSON encoder, the media-type parser and the content sniffer belong to Go's standard
  library. They are parameters of the model:
  \<^item> \<open>json_Encode\<close>: the bytes \<open>json.NewEncoder(w).Encode\<close> hands to \<open>w.Write\<close> for a
    pointer to \<open>ErrorMessage{Errors: msgs}\<close>;
  \<^item> \<open>json_Encode_Message\<close>: the same for the older \<open>ErrorMessage{Message: m}\<close> of rest.go;
  \<^item> \<open>mime_ParseMediaType\<close>: the media type \<open>mime.ParseMediaType\<close> returns, \<open>None\<close>
    when it returns an error;
  \<^item> \<open>http_DetectContentType\<close>: \<open>http.DetectContentType\<close>.
\<close>

record externals =
  json_Encode :: "string list \<Rightarrow> string"
  json_Encode_Message :: "string \<Rightarrow> string"
  mime_ParseMediaType :: "string \<Rightarrow> string option"
  http_DetectContentType :: "string \<Rightarrow> string"

text \<open>\<open>http.StatusText\<close>: the reason phrases of net/http, the empty string for any other code.\<close>

definition StatusText :: "int \<Rightarrow> string" where
  "StatusText code =
    (if code = 100 then ''Continue''
     else if code = 101 then ''Switching Protocols''
     else if code = 102 then ''Processing''
     else if code = 103 then ''Early Hints''
     else if code = 200 then ''OK''
     else if code = 201 then ''Created''
     else if code = 202 then ''Accepted''
     else if code = 203 then ''Non-Authoritative Information''
     else if code = 204 then ''No Content''
     else if code = 205 then ''Reset Content''
     else if code = 206 then ''Partial Content''
     else if code = 207 then ''Multi-Status''
     else if code = 208 then ''Already Reported''
     else if code = 226 then ''IM Used''
     else if code = 300 then ''Multiple Choices''
     else if code = 301 then ''Moved Permanently''
     else if code = 302 then ''Found''
     else if code = 303 then ''See Other''
     else if code = 304 then ''Not Modified''
     else if code = 305 then ''Use Proxy''
     else if code = 307 then ''Temporary Redirect''
     else if code = 308 then ''Permanent Redirect''
     else if code = 400 then ''Bad Request''
     else if code = 401 then ''Unauthorized''
     else if code = 402 then ''Payment Required''
     else if code = 403 then ''Forbidden''
     else if code = 404 then ''Not Found''
     else if code = 405 then ''Method Not Allowed''
     else if code = 406 then ''Not Acceptable''
     else if code = 407 then ''Proxy Authentication Required''
     else if code = 408 then ''Request Timeout''
     else if code = 409 then ''Conflict''
     else if code = 410 then ''Gone''
     else if code = 411 then ''Length Required''
     else if code = 412 then ''Precondition Failed''
     else if code = 413 then ''Request Entity Too Large''
     else if code = 414 then ''Request URI Too Long''
     else if code = 415 then ''Unsupported Media Type''
     else if code = 416 then ''Requested Range Not Satisfiable''
     else if code = 417 then ''Expectation Failed''
     else if code = 418 then ''I'' @ [CHR 0x27] @ ''m a teapot''
     else if code = 421 then ''Misdirected Request''
     else if code = 422 then ''Unprocessable Entity''
     else if code = 423 then ''Locked''
     else if code = 424 then ''Failed Dependency''
     else if code = 425 then ''Too Early''
     else if code = 426 then ''Upgrade Required''
     else if code = 428 then ''Precondition Required''
     else if code = 429 then ''Too Many Requests''
     else if code = 431 then ''Request Header Fields Too Large''
     else if code = 451 then ''Unavailable For Legal Reasons''
     else if code = 500 then ''Internal Server Error''
     else if code = 501 then ''Not Implemented''
     else if code = 502 then ''Bad Gateway''
     else if code = 503 then ''Service Unavailable''
     else if code = 504 then ''Gateway Timeout''
     else if code = 505 then ''HTTP Version Not Supported''
     else if code = 506 then ''Variant Also Negotiates''
     else if code = 507 then ''Insufficient Storage''
     else if code = 508 then ''Loop Detected''
     else if code = 510 then ''Not Extended''
     else if code = 511 then ''Network Authentication Required''
     else [])"

section \<open>Requests\<close>

text \<open>
  Of a request the dispatcher reads the method and the header. \<open>Header.Get\<close> returns the
  first value stored under the key and the empty string when there is none.
\<close>

record request =
  Method :: string
  Header :: "string \<rightharpoonup> string list"

definition Header_Get :: "(string \<rightharpoonup> string list) \<Rightarrow> string \<Rightarrow> string" where
  "Header_Get h key = (case h key of None \<Rightarrow> [] | Some [] \<Rightarrow> [] | Some (v # vs) \<Rightarrow> v)"

section \<open>The content-type gate (restflex.go, ServeHTTP lines 32-61)\<close>

text \<open>\<open>strings.Split(s, sep)\<close> for a separator of one byte: \<open>Split  sep\<close> is \<open>[]\<close>.\<close>

fun Split :: "string \<Rightarrow> char \<Rightarrow> string list" where
  "Split [] sep = [[]]"
| "Split (c # cs) sep =
     (if c = sep then [] # Split cs sep
      else (case Split cs sep of [] \<Rightarrow> [[c]] | y # ys \<Rightarrow> (c # y) # ys))"

text \<open>\<open>strings.HasPrefix(s, prefix)\<close>.\<close>

fun HasPrefix :: "string \<Rightarrow> string \<Rightarrow> bool" where
  "HasPrefix s [] = True"
| "HasPrefix [] (p # ps) = False"
| "HasPrefix (c # cs) (p # ps) = (c = p \<and> HasPrefix cs ps)"

definition acceptedContentTypes :: "string list" where
  "acceptedContentTypes = [''application/json'', ''application/x-www-form-urlencoded'']"

text \<open>
  The inner loop over the accepted types sets the flag and breaks at the first match; the
  break leaves only the inner loop.
\<close>

fun accepted_loop :: "string \<Rightarrow> string list \<Rightarrow> bool \<Rightarrow> bool" where
  "accepted_loop t [] found = found"
| "accepted_loop t (a # as) found = (if HasPrefix t a then True else accepted_loop t as found)"

text \<open>The outer loop over the comma-separated parts; a part that does not parse is skipped.\<close>

fun parts_loop :: "externals \<Rightarrow> string list \<Rightarrow> bool \<Rightarrow> bool" where
  "parts_loop X [] found = found"
| "parts_loop X (v # vs) found =
     (case mime_ParseMediaType X v of
        None \<Rightarrow> parts_loop X vs found
      | Some t \<Rightarrow> parts_loop X vs (accepted_loop t acceptedContentTypes found))"

definition correctContentTypeFound :: "externals \<Rightarrow> string \<Rightarrow> bool" where
  "correctContentTypeFound X contentType = parts_loop X (Split contentType (CHR '','')) False"

text \<open>
  \<open>fmt.Sprintf("%q", s)\<close>: the string in double quotes, with a backslash before a double
  quote and before a backslash. Bytes outside printable ASCII get further escapes in Go;
  the only arguments here are the two accepted types.
\<close>

fun quote_body :: "string \<Rightarrow> string" where
  "quote_body [] = []"
| "quote_body (c # cs) =
     (if c = CHR 0x22 \<or> c = CHR 0x5C then CHR 0x5C # c # quote_body cs else c # quote_body cs)"

definition Sprintf_q :: "string \<Rightarrow> string" where
  "Sprintf_q s = CHR 0x22 # quote_body s @ [CHR 0x22]"

text \<open>
  The loop that builds the message of the rejection: \<open>i\<close> is the index, \<open>n\<close> is
  \<open>len(acceptedContentTypes)\<close>, and the separator is appended when \<open>i-1 < n\<close>.
\<close>

fun msg_loop :: "int \<Rightarrow> int \<Rightarrow> string list \<Rightarrow> string \<Rightarrow> string" where
  "msg_loop n i [] msg = msg"
| "msg_loop n i (a # as) msg =
     msg_loop n (i + 1) as
       (if i - 1 < n then msg @ Sprintf_q a @ '' or '' else msg @ Sprintf_q a)"

definition gate_msg :: string where
  "gate_msg =
     msg_loop (int (length acceptedContentTypes)) 0 acceptedContentTypes
       ''POST, PUT, and PATCH methods require request content type of ''"

section \<open>The error responder and the JSON helpers (restflex.go)\<close>

text \<open>
  What the dispatcher hands to the logger, one constructor for each \<open>Printf\<close> of the source
  with the values it formats.
\<close>

datatype log_entry =
    Log_result "error option" bool
  | Log_client_error int
  | Log_server_error int "error option"
  | Log_error_response error
  | Log_timeout

text \<open>
  \<open>EncodeJSON\<close>: the encoder marshals the message and calls \<open>w.Write\<close> once; an
  \<open>ErrorMessage\<close> always marshals, so the only failure is the one \<open>Write\<close> returns.
\<close>

definition EncodeJSON ::
  "'w http_ResponseWriter \<Rightarrow> externals \<Rightarrow> 'w \<Rightarrow> string list \<Rightarrow> error option \<times> 'w" where
  "EncodeJSON W X w msg =
     (case hWrite W w (json_Encode X msg) of
        ((n, None), w') \<Rightarrow> (None, w')
      | ((n, Some c), w') \<Rightarrow> (Some (IsAPIError (NewAPIError 500 (Some c) [])), w'))"

definition handler_Error ::
  "'w http_ResponseWriter \<Rightarrow> externals \<Rightarrow> 'w \<Rightarrow> int \<Rightarrow> string list \<Rightarrow> 'w \<times> log_entry list" where
  "handler_Error W X w code msgs =
     (case EncodeJSON W X
             (hHeaderSet W (hWriteHeader W w code)
                ''Content-Type'' ''application/json; charset=utf-8'') msgs of
        (None, w') \<Rightarrow> (w', [])
      | (Some errOnError, w') \<Rightarrow> (w', [Log_error_response errOnError]))"

text \<open>
  \<open>DecodeJSON\<close>: \<open>dec\<close> is \<open>json.NewDecoder(body).Decode\<close>, which yields the decoded
  value or an error.
\<close>

definition DecodeJSON :: "(string \<Rightarrow> error + 'a) \<Rightarrow> string \<Rightarrow> error option \<times> 'a option" where
  "DecodeJSON dec body =
     (case dec body of
        Inl c \<Rightarrow> (Some (IsAPIError (NewAPIError 400 (Some c) [])), None)
      | Inr v \<Rightarrow> (None, Some v))"

section \<open>The dispatcher (restflex.go, handler.ServeHTTP)\<close>

text \<open>
  The result of serving one request: the underlying sink as it is left, the log lines in
  order, and how many times the wrapped handler was called.
\<close>

record 's served =
  sink :: 's
  logs :: "log_entry list"
  calls :: nat

definition gate_rejects :: "externals \<Rightarrow> request \<Rightarrow> bool" where
  "gate_rejects X r =
     ((Method r = ''POST'' \<or> Method r = ''PUT'' \<or> Method r = ''PATCH'')
      \<and> \<not> correctContentTypeFound X (Header_Get (Header r) ''Content-Type''))"

definition status_logs :: "int \<Rightarrow> bool \<Rightarrow> error option \<Rightarrow> log_entry list" where
  "status_logs responseStatus isAPIErr err =
     (if 399 < responseStatus \<and> responseStatus < 500 then [Log_client_error responseStatus]
      else if responseStatus = 500 \<or> 501 < responseStatus
           then (if \<not> isAPIErr then [Log_server_error responseStatus err] else [])
      else [])"

definition ServeHTTP ::
  "'s http_ResponseWriter \<Rightarrow> externals \<Rightarrow> (request \<Rightarrow> hprog) \<Rightarrow> 's \<Rightarrow> request \<Rightarrow> 's served" where
  "ServeHTTP W X h w r =
     (if gate_rejects X r then
        (case handler_Error W X w 415 [gate_msg] of
           (w', lg) \<Rightarrow> \<lparr>sink = w', logs = lg, calls = 0\<rparr>)
      else
        (case run (tracked W) (h r) \<lparr>ResponseWriter = w, isWritten = False, status = 200\<rparr> of
           (err, rw) \<Rightarrow>
             if err = None \<and> \<not> isWritten rw then
               (case handler_Error (tracked W) X rw 501 [StatusText 501] of
                  (rw', lg) \<Rightarrow>
                    \<lparr>sink = ResponseWriter rw',
                     logs = Log_result err (isWritten rw) # lg, calls = 1\<rparr>)
             else
               (let apiError = errors_As_opt err;
                    lg = Log_result err (isWritten rw)
                         # status_logs (status rw) (apiError \<noteq> None) err
                in if err = None then \<lparr>sink = ResponseWriter rw, logs = lg, calls = 1\<rparr>
                   else
                     (case apiError of
                        Some e \<Rightarrow>
                          (case handler_Error (tracked W) X rw (StatusCode e) (Errors e) of
                             (rw', lg') \<Rightarrow>
                               \<lparr>sink = ResponseWriter rw', logs = lg @ lg', calls = 1\<rparr>)
                      | None \<Rightarrow>
                          (case handler_Error (tracked W) X rw 500 [StatusText 500] of
                             (rw', lg') \<Rightarrow>
                               \<lparr>sink = ResponseWriter rw', logs = lg @ lg', calls = 1\<rparr>)))))"

section \<open>The timeout watcher (rest.go, API.ServeHTTP lines 69-84, and API.Error)\<close>

text \<open>
  Once \<open>ctx.Done()\<close> is closed, \<open>ctx.Err()\<close> is one of the two errors of package context.
\<close>

datatype ctx_err = Canceled | DeadlineExceeded

text \<open>
  \<open>API.Error\<close> of rest.go writes the older body with the single field \<open>message\<close>; its
  \<open>EncodeJSON\<close> wraps a failed \<open>Write\<close> with \<open>ErrInternal\<close>, and the logged text of that
  wrapper is the text of the cause, which is what the log entry keeps.
\<close>

definition API_Error ::
  "'w http_ResponseWriter \<Rightarrow> externals \<Rightarrow> 'w \<Rightarrow> string \<Rightarrow> int \<Rightarrow> 'w \<times> log_entry list" where
  "API_Error W X w message code =
     (case hWrite W
             (hHeaderSet W (hWriteHeader W w code)
                ''Content-Type'' ''application/json; charset=utf-8'')
             (json_Encode_Message X message) of
        ((n, None), w') \<Rightarrow> (w', [])
      | ((n, Some c), w') \<Rightarrow> (w', [Log_error_response c]))"

text \<open>
  The goroutine started at the top of \<open>API.ServeHTTP\<close>, from the point where
  \<open>ctx.Done()\<close> has been closed: \<open>err\<close> is the value of \<open>ctx.Err()\<close> it reads then. It
  writes to the writer \<open>w\<close> the dispatcher was given, not to the tracked one.
\<close>

definition watcher ::
  "'w http_ResponseWriter \<Rightarrow> externals \<Rightarrow> 'w \<Rightarrow> ctx_err option \<Rightarrow> 'w \<times> log_entry list" where
  "watcher W X w err =
     (case err of
        None \<Rightarrow> (w, [])
      | Some DeadlineExceeded \<Rightarrow>
          (case API_Error W X w ''request took too long to complete'' 429 of
             (w', lg) \<Rightarrow> (w', Log_timeout # lg))
      | Some Canceled \<Rightarrow> (w, []))"

section \<open>The recording sink of the tests\<close>

text \<open>
  The repository's tests serve every request into \<open>httptest.NewRecorder()\<close> and read the
  client's view from \<open>rec.Result()\<close>. The standard library's recorder keeps the first
  status: \<open>WriteHeader\<close> returns at once when a header was written before; otherwise it
  panics on a code outside 100..999, and else stores the code and a snapshot of the header
  map. \<open>Write\<close> first writes the header with status 200 if none was written, adding a
  sniffed \<open>Content-Type\<close> when the map has none and no \<open>Transfer-Encoding\<close>, then appends
  to the body; it never fails. \<open>Result()\<close> reports the code (200 for 0), the snapshot (the
  map itself if no header was ever written) and the body. A panic unwinds the request:
  \<open>panicked\<close> records it, and the calls the model makes afterwards change nothing.
\<close>

record recorder =
  Code :: int
  HeaderMap :: "string \<rightharpoonup> string"
  Body :: string
  wroteHeader :: bool
  snapHeader :: "(string \<rightharpoonup> string) option"
  panicked :: bool

definition NewRecorder :: recorder where
  "NewRecorder =
     \<lparr>Code = 200, HeaderMap = Map.empty, Body = [], wroteHeader = False,
      snapHeader = None, panicked = False\<rparr>"

definition recorder_HeaderSet :: "recorder \<Rightarrow> string \<Rightarrow> string \<Rightarrow> recorder" where
  "recorder_HeaderSet rw key v =
     (if panicked rw then rw else rw\<lparr>HeaderMap := (HeaderMap rw)(key \<mapsto> v)\<rparr>)"

definition recorder_WriteHeader :: "recorder \<Rightarrow> int \<Rightarrow> recorder" where
  "recorder_WriteHeader rw code =
     (if panicked rw \<or> wroteHeader rw then rw
      else if code < 100 \<or> 999 < code then rw\<lparr>panicked := True\<rparr>
      else rw\<lparr>Code := code, wroteHeader := True, snapHeader := Some (HeaderMap rw)\<rparr>)"

definition recorder_writeHeader :: "externals \<Rightarrow> recorder \<Rightarrow> string \<Rightarrow> recorder" where
  "recorder_writeHeader X rw b =
     (if wroteHeader rw then rw
      else recorder_WriteHeader
             (if HeaderMap rw ''Content-Type'' = None
                 \<and> (HeaderMap rw ''Transfer-Encoding'' = None
                      \<or> HeaderMap rw ''Transfer-Encoding'' = Some [])
              then rw\<lparr>HeaderMap := (HeaderMap rw)(''Content-Type'' \<mapsto> http_DetectContentType X b)\<rparr>
              else rw) 200)"

definition recorder_Write :: "externals \<Rightarrow> recorder \<Rightarrow> string \<Rightarrow> (int \<times> error option) \<times> recorder" where
  "recorder_Write X rw buf =
     (if panicked rw then ((0, None), rw)
      else ((int (length buf), None),
            (recorder_writeHeader X rw buf)\<lparr>Body := Body (recorder_writeHeader X rw buf) @ buf\<rparr>))"

definition recorderW :: "externals \<Rightarrow> recorder http_ResponseWriter" where
  "recorderW X =
     \<lparr> hHeaderSet = recorder_HeaderSet,
       hWrite = recorder_Write X,
       hWriteHeader = recorder_WriteHeader \<rparr>"

definition Result_StatusCode :: "recorder \<Rightarrow> int" where
  "Result_StatusCode rw = (if Code rw = 0 then 200 else Code rw)"

definition Result_Header :: "recorder \<Rightarrow> (string \<rightharpoonup> string)" where
  "Result_Header rw = (case snapHeader rw of None \<Rightarrow> HeaderMap rw | Some h \<Rightarrow> h)"

definition Result_Body :: "recorder \<Rightarrow> string" where
  "Result_Body rw = Body rw"

text \<open>A recorder nothing has been written to; header fields may have been set.\<close>

definition unwritten :: "recorder \<Rightarrow> bool" where
  "unwritten rw = (\<not> wroteHeader rw \<and> \<not> panicked rw \<and> Body rw = [] \<and> snapHeader rw = None)"

section \<open>Sample collaborators for the worked examples\<close>

text \<open>
  For the closed examples the parameters are fixed to what the standard library returns on
  the inputs the examples use: the encoder on messages of plain ASCII that JSON does not
  escape (an empty, nil slice is encoded as \<open>null\<close>), and the parser on the header values
  listed (any other value is taken as a parse error, which is what Go reports for the empty
  string).
\<close>

definition dquote :: "string \<Rightarrow> string" where
  "dquote s = CHR 0x22 # s @ [CHR 0x22]"

fun json_strings :: "string list \<Rightarrow> string" where
  "json_strings [] = []"
| "json_strings [m] = dquote m"
| "json_strings (m # ms) = dquote m @ '','' @ json_strings ms"

definition sample_Encode :: "string list \<Rightarrow> string" where
  "sample_Encode msgs =
     ''{'' @ dquote ''errors'' @ '':''
       @ (if msgs = [] then ''null'' else ''['' @ json_strings msgs @ '']'')
       @ ''}'' @ [CHR 0x0A]"

definition sample_Encode_Message :: "string \<Rightarrow> string" where
  "sample_Encode_Message m = ''{'' @ dquote ''message'' @ '':'' @ dquote m @ ''}'' @ [CHR 0x0A]"

definition sample_ParseMediaType :: "string \<Rightarrow> string option" where
  "sample_ParseMediaType v =
     (if v = ''application/json'' then Some ''application/json''
      else if v = ''application/json; charset=utf-8'' then Some ''application/json''
      else if v = ''application/x-www-form-urlencoded'' then Some ''application/x-www-form-urlencoded''
      else if v = ''text/plain'' then Some ''text/plain''
      else None)"

definition sampleX :: externals where
  "sampleX =
     \<lparr> json_Encode = sample_Encode,
       json_Encode_Message = sample_Encode_Message,
       mime_ParseMediaType = sample_ParseMediaType,
       http_DetectContentType = (\<lambda>b. ''text/plain; charset=utf-8'') \<rparr>"

text \<open>The requests of the worked examples.\<close>

definition exampleGET :: request where
  "exampleGET = \<lparr>Method = ''GET'', Header = Map.empty\<rparr>"

definition examplePOST :: "string \<Rightarrow> request" where
  "examplePOST ct = \<lparr>Method = ''POST'', Header = [''Content-Type'' \<mapsto> [ct]]\<rparr>"

definition examplePOST_bare :: request where
  "examplePOST_bare = \<lparr>Method = ''POST'', Header = Map.empty\<rparr>"

text \<open>A decoder for the worked examples: \<open>{}\<close> decodes, anything else is an error.\<close>

definition sample_Decode :: "string \<Rightarrow> error + unit" where
  "sample_Decode body = (if body = ''{}'' then Inr () else Inl (ErrorsNew ''unexpected EOF''))"


section \<open>Properties of the tracked response writer\<close>

lemma responseWriter_Write_isWritten:
  "isWritten (snd (responseWriter_Write U w b))"
  by (simp add: responseWriter_Write_def split: prod.split)

lemma responseWriter_WriteHeader_isWritten:
  "isWritten (responseWriter_WriteHeader U w c)"
  by (simp add: responseWriter_WriteHeader_def)

text \<open>
  C10. For every byte slice \<open>b\<close>, \<open>Write(b)\<close> on the tracked response writer sets
  \<open>isWritten\<close> and returns the byte count and the error of the underlying sink's
  \<open>Write\<close> as they are, whatever that error is; the underlying sink is left as its own
  \<open>Write\<close> leaves it and the recorded status is not touched.
\<close>

theorem responseWriter_Write_forwards:
  "isWritten (snd (responseWriter_Write U w b))
   \<and> fst (responseWriter_Write U w b) = fst (hWrite U (ResponseWriter w) b)
   \<and> ResponseWriter (snd (responseWriter_Write U w b)) = snd (hWrite U (ResponseWriter w) b)
   \<and> status (snd (responseWriter_Write U w b)) = status w"
  by (simp add: responseWriter_Write_def split: prod.split)

theorem responseWriter_Write_forwards_witness:
  "isWritten (snd (responseWriter_Write brokenConn
      \<lparr>ResponseWriter = (), isWritten = False, status = 200\<rparr> ''abc''))
   \<and> fst (responseWriter_Write brokenConn
      \<lparr>ResponseWriter = (), isWritten = False, status = 200\<rparr> ''abc'')
     = (0, Some (ErrorsNew ''write: broken pipe''))"
  using responseWriter_Write_forwards [of brokenConn
      "\<lparr>ResponseWriter = (), isWritten = False, status = 200\<rparr>" "''abc''"]
  by (simp add: brokenConn_def)

text \<open>
  The tracked writer seen from a handler: the flag is set exactly when the handler wrote,
  and the underlying sink and the handler's result are what they would be without the
  tracker in between.
\<close>

lemma tracked_sel:
  "hWriteHeader (tracked U) = responseWriter_WriteHeader U"
  "hWrite (tracked U) = responseWriter_Write U"
  "hHeaderSet (tracked U) w k v = w\<lparr>ResponseWriter := hHeaderSet U (ResponseWriter w) k v\<rparr>"
  by (simp_all add: tracked_def)

lemma run_tracked_isWritten:
  "isWritten (snd (run (tracked U) p rw)) = (isWritten rw \<or> wrote p)"
proof (induction p arbitrary: rw)
  case (Return e)
  show ?case by simp
next
  case (DoWriteHeader c k)
  show ?case
    by (simp add: DoWriteHeader.IH tracked_sel responseWriter_WriteHeader_def)
next
  case (DoWrite b k)
  show ?case
    by (simp add: DoWrite.IH tracked_sel responseWriter_Write_def split: prod.split)
next
  case (DoHeaderSet key v k)
  show ?case
    by (simp add: DoHeaderSet.IH tracked_sel)
qed

lemma run_tracked_forward:
  "fst (run (tracked U) p rw) = fst (run U p (ResponseWriter rw))
   \<and> ResponseWriter (snd (run (tracked U) p rw)) = snd (run U p (ResponseWriter rw))"
proof (induction p arbitrary: rw)
  case (Return e)
  show ?case by simp
next
  case (DoWriteHeader c k)
  show ?case
    by (simp add: DoWriteHeader.IH tracked_sel responseWriter_WriteHeader_def)
next
  case (DoWrite b k)
  show ?case
    by (simp add: DoWrite.IH tracked_sel responseWriter_Write_def split: prod.split)
next
  case (DoHeaderSet key v k)
  show ?case
    by (simp add: DoHeaderSet.IH tracked_sel)
qed

lemma handler_Error_tracked:
  "ResponseWriter (fst (handler_Error (tracked U) X rw c ms)) = fst (handler_Error U X (ResponseWriter rw) c ms)
   \<and> snd (handler_Error (tracked U) X rw c ms) = snd (handler_Error U X (ResponseWriter rw) c ms)"
  by (simp add: handler_Error_def EncodeJSON_def tracked_sel responseWriter_Write_def
      responseWriter_WriteHeader_def split: prod.split option.split)

lemma run_returning:
  "run W (returning e p) w = (e, snd (run W p w))"
  by (induction p arbitrary: w) (simp_all add: split_beta)

lemma wrote_returning: "wrote (returning e p) = wrote p"
  by (induction p) simp_all

section \<open>The dispatcher on the bare sink\<close>

text \<open>
  The tracked writer forwards every call, so what the dispatcher leaves on the sink can be
  read off the handler's run on the bare sink.
\<close>

lemma ServeHTTP_sink:
  assumes "\<not> gate_rejects X r"
  shows "sink (ServeHTTP W X h w r) =
     (case fst (run W (h r) w) of
        None \<Rightarrow>
          if wrote (h r) then snd (run W (h r) w)
          else fst (handler_Error W X (snd (run W (h r) w)) 501 [StatusText 501])
      | Some e \<Rightarrow>
          (case errors_As e of
             Some a \<Rightarrow> fst (handler_Error W X (snd (run W (h r) w)) (StatusCode a) (Errors a))
           | None \<Rightarrow> fst (handler_Error W X (snd (run W (h r) w)) 500 [StatusText 500])))"
proof -
  let ?rw0 = "\<lparr>ResponseWriter = w, isWritten = False, status = 200\<rparr>"
  obtain err rw where R: "run (tracked W) (h r) ?rw0 = (err, rw)"
    by (cases "run (tracked W) (h r) ?rw0")
  have 1: "isWritten rw = wrote (h r)"
    using run_tracked_isWritten [of W "h r" ?rw0] R by simp
  have 2: "fst (run W (h r) w) = err" "snd (run W (h r) w) = ResponseWriter rw"
    using run_tracked_forward [of W "h r" ?rw0] R by simp_all
  show ?thesis
    using assms
    by (simp add: ServeHTTP_def R 1 2 Let_def errors_As_opt_def handler_Error_tracked
        split_beta split: option.split)
qed

lemma ServeHTTP_calls:
  "calls (ServeHTTP W X h w r) = (if gate_rejects X r then 0 else 1)"
  by (simp add: ServeHTTP_def Let_def split_beta split: option.split)

lemma ServeHTTP_rejected:
  assumes "gate_rejects X r"
  shows "ServeHTTP W X h w r =
     \<lparr>sink = fst (handler_Error W X w 415 [gate_msg]),
      logs = snd (handler_Error W X w 415 [gate_msg]), calls = 0\<rparr>"
  using assms by (simp add: ServeHTTP_def split_beta)

lemma opaque_error_text_not_in_sink:
  assumes "errors_As e1 = None" and "errors_As e2 = None"
  shows "sink (ServeHTTP W X (\<lambda>q. returning (Some e1) (h q)) w r)
       = sink (ServeHTTP W X (\<lambda>q. returning (Some e2) (h q)) w r)"
proof (cases "gate_rejects X r")
  case True
  then show ?thesis by (simp add: ServeHTTP_rejected)
next
  case False
  then show ?thesis
    using assms by (simp add: ServeHTTP_sink run_returning)
qed

section \<open>The recorder\<close>

lemma recorderW_sel:
  "hWriteHeader (recorderW X) = recorder_WriteHeader"
  "hWrite (recorderW X) = recorder_Write X"
  "hHeaderSet (recorderW X) = recorder_HeaderSet"
  by (simp_all add: recorderW_def)

lemma sampleX_sel:
  "json_Encode sampleX = sample_Encode"
  "json_Encode_Message sampleX = sample_Encode_Message"
  "mime_ParseMediaType sampleX = sample_ParseMediaType"
  by (simp_all add: sampleX_def)

lemma unwritten_run:
  "\<not> wrote p \<Longrightarrow> unwritten w \<Longrightarrow> unwritten (snd (run (recorderW X) p w))"
proof (induction p arbitrary: w)
  case (Return e)
  then show ?case by simp
next
  case (DoWriteHeader c k)
  then show ?case by simp
next
  case (DoWrite b k)
  then show ?case by simp
next
  case (DoHeaderSet key v k)
  have "unwritten (recorder_HeaderSet w key v)"
    using DoHeaderSet.prems(2) by (simp add: unwritten_def recorder_HeaderSet_def)
  with DoHeaderSet show ?case by (simp add: recorderW_sel)
qed

lemma handler_Error_recorder:
  assumes "unwritten w" "100 \<le> c" "c \<le> 999"
  shows "Result_StatusCode (fst (handler_Error (recorderW X) X w c ms)) = c"
    and "Result_Body (fst (handler_Error (recorderW X) X w c ms)) = json_Encode X ms"
    and "Result_Header (fst (handler_Error (recorderW X) X w c ms)) = HeaderMap w"
    and "\<not> panicked (fst (handler_Error (recorderW X) X w c ms))"
    and "snd (handler_Error (recorderW X) X w c ms) = []"
  using assms
  by (simp_all add: handler_Error_def EncodeJSON_def recorderW_sel recorder_Write_def
      recorder_writeHeader_def recorder_WriteHeader_def recorder_HeaderSet_def unwritten_def
      Result_StatusCode_def Result_Body_def Result_Header_def)

lemma API_Error_recorder:
  assumes "unwritten w" "100 \<le> c" "c \<le> 999"
  shows "Code (fst (API_Error (recorderW X) X w m c)) = c"
    and "Body (fst (API_Error (recorderW X) X w m c)) = json_Encode_Message X m"
    and "wroteHeader (fst (API_Error (recorderW X) X w m c))"
    and "\<not> panicked (fst (API_Error (recorderW X) X w m c))"
  using assms
  by (simp_all add: API_Error_def recorderW_sel recorder_Write_def
      recorder_writeHeader_def recorder_WriteHeader_def recorder_HeaderSet_def unwritten_def)

text \<open>
  Once a header is written the recorder keeps its status and its header snapshot, whatever
  is called on it afterwards.
\<close>

lemma recorder_committed_run:
  "wroteHeader w \<Longrightarrow> \<not> panicked w \<Longrightarrow>
     Code (snd (run (recorderW X) p w)) = Code w
     \<and> wroteHeader (snd (run (recorderW X) p w))
     \<and> \<not> panicked (snd (run (recorderW X) p w))
     \<and> snapHeader (snd (run (recorderW X) p w)) = snapHeader w"
proof (induction p arbitrary: w)
  case (Return e)
  then show ?case by simp
next
  case (DoWriteHeader c k)
  have "recorder_WriteHeader w c = w"
    using DoWriteHeader.prems by (simp add: recorder_WriteHeader_def)
  with DoWriteHeader show ?case by (simp add: recorderW_sel)
next
  case (DoWrite b k)
  let ?w' = "snd (recorder_Write X w b)"
  have w': "wroteHeader ?w'" "\<not> panicked ?w'" "Code ?w' = Code w" "snapHeader ?w' = snapHeader w"
    using DoWrite.prems by (simp_all add: recorder_Write_def recorder_writeHeader_def)
  have "k (fst (recorder_Write X w b)) \<in> range k" by simp
  from DoWrite.IH [OF this w'(1,2)] w'(3,4)
  show ?case by (simp add: recorderW_sel split_beta)
next
  case (DoHeaderSet key v k)
  let ?w' = "recorder_HeaderSet w key v"
  have w': "wroteHeader ?w'" "\<not> panicked ?w'" "Code ?w' = Code w" "snapHeader ?w' = snapHeader w"
    using DoHeaderSet.prems by (simp_all add: recorder_HeaderSet_def)
  from DoHeaderSet.IH [OF w'(1,2)] w'(3,4)
  show ?case by (simp add: recorderW_sel)
qed

section \<open>The content-type gate\<close>

lemma HasPrefix_iff: "HasPrefix s p = (\<exists>z. s = p @ z)"
  by (induction s p rule: HasPrefix.induct) auto

lemma accepted_loop_iff:
  "accepted_loop t as found = (found \<or> (\<exists>a\<in>set as. HasPrefix t a))"
  by (induction as) auto

lemma parts_loop_iff:
  "parts_loop X vs found =
     (found \<or> (\<exists>v\<in>set vs. \<exists>t. mime_ParseMediaType X v = Some t
                  \<and> (\<exists>a\<in>set acceptedContentTypes. HasPrefix t a)))"
proof (induction vs arbitrary: found)
  case Nil
  show ?case by simp
next
  case (Cons v vs)
  show ?case
  proof (cases "mime_ParseMediaType X v")
    case None
    then show ?thesis by (simp add: Cons.IH)
  next
    case (Some t)
    then show ?thesis by (simp add: Cons.IH accepted_loop_iff)
  qed
qed

lemma correctContentTypeFound_iff:
  "correctContentTypeFound X ct =
     (\<exists>v\<in>set (Split ct (CHR '','')). \<exists>t. mime_ParseMediaType X v = Some t
          \<and> (\<exists>a\<in>set acceptedContentTypes. HasPrefix t a))"
  by (simp add: correctContentTypeFound_def parts_loop_iff)

text \<open>
  C5. A POST, PUT or PATCH request whose Content-Type header has no comma-separated part
  that parses to a media type with an accepted prefix (an absent header is the empty
  string, whose only part does not parse) is answered with 415 on a recorder nothing was
  written to, the handler is not called, and the outcome is the same for every handler.
\<close>

theorem gate_rejects_unaccepted:
  assumes "Method r = ''POST'' \<or> Method r = ''PUT'' \<or> Method r = ''PATCH''"
    and "\<forall>v\<in>set (Split (Header_Get (Header r) ''Content-Type'') (CHR '','')).
           \<forall>t. mime_ParseMediaType X v = Some t
                 \<longrightarrow> (\<forall>a\<in>set acceptedContentTypes. \<not> HasPrefix t a)"
    and "unwritten w"
  shows "Result_StatusCode (sink (ServeHTTP (recorderW X) X h w r)) = 415
     \<and> calls (ServeHTTP (recorderW X) X h w r) = 0
     \<and> ServeHTTP (recorderW X) X h w r = ServeHTTP (recorderW X) X h' w r"
proof -
  have "\<not> correctContentTypeFound X (Header_Get (Header r) ''Content-Type'')"
    using assms(2) by (simp add: correctContentTypeFound_iff)
  then have g: "gate_rejects X r"
    using assms(1) by (simp add: gate_rejects_def)
  show ?thesis
    by (simp add: ServeHTTP_rejected [OF g] handler_Error_recorder [OF assms(3)])
qed

theorem gate_rejects_unaccepted_witness:
  "Result_StatusCode (sink (ServeHTTP (recorderW sampleX) sampleX
       (\<lambda>r. DoWriteHeader 200 (Return None)) NewRecorder (examplePOST ''text/plain''))) = 415
   \<and> calls (ServeHTTP (recorderW sampleX) sampleX
       (\<lambda>r. DoWriteHeader 200 (Return None)) NewRecorder (examplePOST ''text/plain'')) = 0
   \<and> Result_StatusCode (sink (ServeHTTP (recorderW sampleX) sampleX
       (\<lambda>r. DoWriteHeader 200 (Return None)) NewRecorder examplePOST_bare)) = 415
   \<and> calls (ServeHTTP (recorderW sampleX) sampleX
       (\<lambda>r. DoWriteHeader 200 (Return None)) NewRecorder examplePOST_bare) = 0"
proof -
  have u: "unwritten NewRecorder"
    by (simp add: unwritten_def NewRecorder_def)
  have m1: "Method (examplePOST ''text/plain'') = ''POST'' \<or> Method (examplePOST ''text/plain'') = ''PUT''
            \<or> Method (examplePOST ''text/plain'') = ''PATCH''"
    by (simp add: examplePOST_def)
  have p1: "\<forall>v\<in>set (Split (Header_Get (Header (examplePOST ''text/plain'')) ''Content-Type'') (CHR '','')).
           \<forall>t. mime_ParseMediaType sampleX v = Some t
                 \<longrightarrow> (\<forall>a\<in>set acceptedContentTypes. \<not> HasPrefix t a)"
    by (simp add: examplePOST_def Header_Get_def sampleX_def sample_ParseMediaType_def
        acceptedContentTypes_def)
  have m2: "Method examplePOST_bare = ''POST'' \<or> Method examplePOST_bare = ''PUT''
            \<or> Method examplePOST_bare = ''PATCH''"
    by (simp add: examplePOST_bare_def)
  have p2: "\<forall>v\<in>set (Split (Header_Get (Header examplePOST_bare) ''Content-Type'') (CHR '','')).
           \<forall>t. mime_ParseMediaType sampleX v = Some t
                 \<longrightarrow> (\<forall>a\<in>set acceptedContentTypes. \<not> HasPrefix t a)"
    by (simp add: examplePOST_bare_def Header_Get_def sampleX_def sample_ParseMediaType_def)
  show ?thesis
    using gate_rejects_unaccepted [OF m1 p1 u] gate_rejects_unaccepted [OF m2 p2 u]
    by simp
qed

text \<open>
  C6. The message of the rejection, as the loop builds it: the separator is appended when
  \<open>i-1 < len(acceptedContentTypes)\<close>, which holds at every index, so the message ends
  with a separator after the last accepted type and is not the sentence without trailing
  text.
\<close>

theorem gate_msg_trailing_or:
  "gate_msg = ''POST, PUT, and PATCH methods require request content type of ''
       @ dquote ''application/json'' @ '' or ''
       @ dquote ''application/x-www-form-urlencoded'' @ '' or ''
   \<and> gate_msg \<noteq> ''POST, PUT, and PATCH methods require request content type of ''
       @ dquote ''application/json'' @ '' or ''
       @ dquote ''application/x-www-form-urlencoded''"
  by (simp add: gate_msg_def acceptedContentTypes_def Sprintf_q_def dquote_def)

section \<open>Outcomes of the dispatcher\<close>

text \<open>
  C2. A handler that returns nil without calling \<open>WriteHeader\<close> or \<open>Write\<close> on the
  tracked writer (it may have set header fields) gets the fallback: on a recorder nothing
  was written to before, the client sees status 501 and the body is the encoding of the
  single message "Not Implemented"; the handler was called once.
\<close>

theorem silent_handler_gets_501:
  assumes "\<not> gate_rejects X r" and "unwritten w" and "\<not> wrote (h r)"
    and "fst (run (recorderW X) (h r) w) = None"
  shows "Result_StatusCode (sink (ServeHTTP (recorderW X) X h w r)) = 501
     \<and> Result_Body (sink (ServeHTTP (recorderW X) X h w r)) = json_Encode X [''Not Implemented'']
     \<and> calls (ServeHTTP (recorderW X) X h w r) = 1"
proof -
  have u: "unwritten (snd (run (recorderW X) (h r) w))"
    using assms(2,3) by (simp add: unwritten_run)
  have s: "sink (ServeHTTP (recorderW X) X h w r)
           = fst (handler_Error (recorderW X) X (snd (run (recorderW X) (h r) w)) 501 [StatusText 501])"
    using assms(1,3,4) by (simp add: ServeHTTP_sink)
  have t: "StatusText 501 = ''Not Implemented''"
    by (simp add: StatusText_def)
  show ?thesis
    using assms(1) by (simp add: s t handler_Error_recorder [OF u] ServeHTTP_calls)
qed

theorem silent_handler_gets_501_witness:
  "\<not> gate_rejects sampleX exampleGET \<and> unwritten NewRecorder
   \<and> \<not> wrote (DoHeaderSet ''X-Trace'' ''1'' (Return None))
   \<and> fst (run (recorderW sampleX) (DoHeaderSet ''X-Trace'' ''1'' (Return None)) NewRecorder) = None
   \<and> Result_StatusCode (sink (ServeHTTP (recorderW sampleX) sampleX
        (\<lambda>r. DoHeaderSet ''X-Trace'' ''1'' (Return None)) NewRecorder exampleGET)) = 501
   \<and> Result_Body (sink (ServeHTTP (recorderW sampleX) sampleX
        (\<lambda>r. DoHeaderSet ''X-Trace'' ''1'' (Return None)) NewRecorder exampleGET))
     = sample_Encode [''Not Implemented'']"
proof -
  have a: "\<not> gate_rejects sampleX exampleGET"
    by (simp add: gate_rejects_def exampleGET_def)
  have b: "unwritten NewRecorder"
    by (simp add: unwritten_def NewRecorder_def)
  have c: "\<not> wrote ((\<lambda>r. DoHeaderSet ''X-Trace'' ''1'' (Return None)) exampleGET)"
    by simp
  have d: "fst (run (recorderW sampleX)
             ((\<lambda>r. DoHeaderSet ''X-Trace'' ''1'' (Return None)) exampleGET) NewRecorder) = None"
    by simp
  show ?thesis
    using silent_handler_gets_501 [OF a b c d] a b by (simp add: sampleX_def)
qed

text \<open>
  C4. When the handler writes a status or a body through the tracked writer and returns
  nil, the dispatcher adds no call of its own: whatever the sink is, it is left exactly as
  the handler's calls leave it.
\<close>

theorem success_response_untouched:
  assumes "\<not> gate_rejects X r" and "wrote (h r)" and "fst (run W (h r) w) = None"
  shows "sink (ServeHTTP W X h w r) = snd (run W (h r) w)
     \<and> calls (ServeHTTP W X h w r) = 1"
  using assms by (simp add: ServeHTTP_sink ServeHTTP_calls)

theorem success_response_untouched_witness:
  "\<not> gate_rejects sampleX exampleGET
   \<and> wrote (DoWriteHeader 201 (DoWrite ''ok'' (\<lambda>res. Return None)))
   \<and> fst (run (recorderW sampleX) (DoWriteHeader 201 (DoWrite ''ok'' (\<lambda>res. Return None)))
        NewRecorder) = None
   \<and> Result_StatusCode (sink (ServeHTTP (recorderW sampleX) sampleX
        (\<lambda>r. DoWriteHeader 201 (DoWrite ''ok'' (\<lambda>res. Return None))) NewRecorder exampleGET)) = 201
   \<and> Result_Body (sink (ServeHTTP (recorderW sampleX) sampleX
        (\<lambda>r. DoWriteHeader 201 (DoWrite ''ok'' (\<lambda>res. Return None))) NewRecorder exampleGET)) = ''ok''"
proof -
  let ?p = "DoWriteHeader 201 (DoWrite ''ok'' (\<lambda>res. Return None))"
  have a: "\<not> gate_rejects sampleX exampleGET"
    by (simp add: gate_rejects_def exampleGET_def)
  have b: "wrote ((\<lambda>r. ?p) exampleGET)"
    by simp
  have c: "fst (run (recorderW sampleX) ((\<lambda>r. ?p) exampleGET) NewRecorder) = None"
    by (simp add: split_beta)
  show ?thesis
    using success_response_untouched [OF a b c] a
    by (simp add: recorderW_sel recorder_Write_def recorder_writeHeader_def
        recorder_WriteHeader_def NewRecorder_def Result_StatusCode_def Result_Body_def)
qed

text \<open>
  C1, as the code has it. When the handler returns an error that is or wraps an
  \<open>*apiError\<close> with a status code \<open>S\<close> in 100..999 and messages \<open>M\<close>, and has written
  nothing before, the client sees status \<open>S\<close> and the body is the encoding of exactly
  \<open>M\<close>: an empty \<open>M\<close> is sent as it is, no reason phrase takes its place.
\<close>

theorem structured_error_response:
  assumes "\<not> gate_rejects X r" and "unwritten w" and "\<not> wrote (h r)"
    and "fst (run (recorderW X) (h r) w) = Some e" and "errors_As e = Some a"
    and "100 \<le> statusCode a" and "statusCode a \<le> 999"
  shows "Result_StatusCode (sink (ServeHTTP (recorderW X) X h w r)) = statusCode a
     \<and> Result_Body (sink (ServeHTTP (recorderW X) X h w r)) = json_Encode X (messages a)
     \<and> calls (ServeHTTP (recorderW X) X h w r) = 1"
proof -
  have u: "unwritten (snd (run (recorderW X) (h r) w))"
    using assms(2,3) by (simp add: unwritten_run)
  have s: "sink (ServeHTTP (recorderW X) X h w r)
           = fst (handler_Error (recorderW X) X (snd (run (recorderW X) (h r) w))
                    (statusCode a) (messages a))"
    using assms(1,4,5) by (simp add: ServeHTTP_sink StatusCode_def Errors_def)
  show ?thesis
    using assms(1) by (simp add: s handler_Error_recorder [OF u assms(6,7)] ServeHTTP_calls)
qed

theorem structured_error_response_witness:
  "Result_StatusCode (sink (ServeHTTP (recorderW sampleX) sampleX
      (\<lambda>r. Return (Some (Errorf ''lookup'' (IsAPIError (NewAPIError 404 None [''item not found''])))))
      NewRecorder exampleGET)) = 404
   \<and> Result_Body (sink (ServeHTTP (recorderW sampleX) sampleX
      (\<lambda>r. Return (Some (Errorf ''lookup'' (IsAPIError (NewAPIError 404 None [''item not found''])))))
      NewRecorder exampleGET)) = sample_Encode [''item not found'']"
proof -
  let ?a = "NewAPIError 404 None [''item not found'']"
  let ?e = "Errorf ''lookup'' (IsAPIError ?a)"
  have g: "\<not> gate_rejects sampleX exampleGET"
    by (simp add: gate_rejects_def exampleGET_def)
  have u: "unwritten NewRecorder"
    by (simp add: unwritten_def NewRecorder_def)
  have n: "\<not> wrote ((\<lambda>r. Return (Some ?e)) exampleGET)"
    by simp
  have f: "fst (run (recorderW sampleX) ((\<lambda>r. Return (Some ?e)) exampleGET) NewRecorder) = Some ?e"
    by simp
  have m: "errors_As ?e = Some ?a"
    by simp
  have lo: "100 \<le> statusCode ?a" and hi: "statusCode ?a \<le> 999"
    by (simp_all add: NewAPIError_def)
  show ?thesis
    using structured_error_response [OF g u n f m lo hi]
    by (simp add: NewAPIError_def sampleX_def)
qed

text \<open>
  C1 as stated fails twice. \<open>NewAPIError(400, nil)\<close> has no messages: the body is the
  encoding of the empty list, not of \<open>["Bad Request"]\<close>. And a handler that writes the
  header 200 and then returns an API error with status 400 leaves the client with 200: the
  recorder keeps the first status.
\<close>

theorem structured_error_counterexample:
  "Result_StatusCode (sink (ServeHTTP (recorderW sampleX) sampleX
      (\<lambda>r. Return (Some (IsAPIError (NewAPIError 400 None []))))
      NewRecorder exampleGET)) = 400
   \<and> Result_Body (sink (ServeHTTP (recorderW sampleX) sampleX
      (\<lambda>r. Return (Some (IsAPIError (NewAPIError 400 None []))))
      NewRecorder exampleGET)) = sample_Encode []
   \<and> sample_Encode [] \<noteq> sample_Encode [StatusText 400]
   \<and> Result_StatusCode (sink (ServeHTTP (recorderW sampleX) sampleX
      (\<lambda>r. DoWriteHeader 200 (Return (Some (IsAPIError (NewAPIError 400 None [''bad input''])))))
      NewRecorder exampleGET)) = 200"
  by (simp add: ServeHTTP_def gate_rejects_def exampleGET_def handler_Error_def EncodeJSON_def
      tracked_sel responseWriter_Write_def responseWriter_WriteHeader_def recorderW_sel
      recorder_Write_def recorder_writeHeader_def recorder_WriteHeader_def recorder_HeaderSet_def
      NewRecorder_def Result_Body_def Result_StatusCode_def errors_As_opt_def Let_def
      NewAPIError_def StatusCode_def Errors_def sampleX_def sample_Encode_def StatusText_def)

text \<open>
  C3, as the code has it. Two handlers that make the same calls and return different
  errors, neither of which is or wraps an \<open>*apiError\<close>, leave the same sink, whatever the
  sink is: the error text reaches the log only. When the handler has written nothing, the
  client sees status 500 and the body is the encoding of the single message
  "Internal Server Error".
\<close>

theorem opaque_error_response:
  assumes "errors_As e1 = None" and "errors_As e2 = None" and "\<not> gate_rejects X r"
  shows "sink (ServeHTTP W X (\<lambda>q. returning (Some e1) (h q)) w r)
         = sink (ServeHTTP W X (\<lambda>q. returning (Some e2) (h q)) w r)
     \<and> (unwritten v \<and> \<not> wrote (h r) \<longrightarrow>
          Result_StatusCode (sink (ServeHTTP (recorderW X) X (\<lambda>q. returning (Some e1) (h q)) v r)) = 500
          \<and> Result_Body (sink (ServeHTTP (recorderW X) X (\<lambda>q. returning (Some e1) (h q)) v r))
            = json_Encode X [''Internal Server Error''])"
proof -
  have t: "StatusText 500 = ''Internal Server Error''"
    by (simp add: StatusText_def)
  have obs: "Result_StatusCode (sink (ServeHTTP (recorderW X) X (\<lambda>q. returning (Some e1) (h q)) v r)) = 500
          \<and> Result_Body (sink (ServeHTTP (recorderW X) X (\<lambda>q. returning (Some e1) (h q)) v r))
            = json_Encode X [''Internal Server Error'']"
    if u: "unwritten v" and n: "\<not> wrote (h r)"
  proof -
    have u': "unwritten (snd (run (recorderW X) (h r) v))"
      using u n by (simp add: unwritten_run)
    have s: "sink (ServeHTTP (recorderW X) X (\<lambda>q. returning (Some e1) (h q)) v r)
             = fst (handler_Error (recorderW X) X (snd (run (recorderW X) (h r) v)) 500
                      [''Internal Server Error''])"
      using assms(1,3) by (simp add: ServeHTTP_sink run_returning t)
    show ?thesis
      by (simp add: s handler_Error_recorder [OF u'])
  qed
  show ?thesis
    using opaque_error_text_not_in_sink [OF assms(1,2), of W X h w r] obs by simp
qed

theorem opaque_error_response_witness:
  "sink (ServeHTTP (recorderW sampleX) sampleX
      (\<lambda>q. returning (Some (ErrorsNew ''dial tcp 10.0.0.7:5432: refused''))
              (DoHeaderSet ''X-Trace'' ''1'' (Return None))) NewRecorder exampleGET)
   = sink (ServeHTTP (recorderW sampleX) sampleX
      (\<lambda>q. returning (Some (Errorf ''query'' (ErrorsNew ''no rows'')))
              (DoHeaderSet ''X-Trace'' ''1'' (Return None))) NewRecorder exampleGET)
   \<and> Result_StatusCode (sink (ServeHTTP (recorderW sampleX) sampleX
      (\<lambda>q. returning (Some (ErrorsNew ''dial tcp 10.0.0.7:5432: refused''))
              (DoHeaderSet ''X-Trace'' ''1'' (Return None))) NewRecorder exampleGET)) = 500
   \<and> Result_Body (sink (ServeHTTP (recorderW sampleX) sampleX
      (\<lambda>q. returning (Some (ErrorsNew ''dial tcp 10.0.0.7:5432: refused''))
              (DoHeaderSet ''X-Trace'' ''1'' (Return None))) NewRecorder exampleGET))
     = sample_Encode [''Internal Server Error'']"
proof -
  have a: "errors_As (ErrorsNew ''dial tcp 10.0.0.7:5432: refused'') = None"
    by simp
  have b: "errors_As (Errorf ''query'' (ErrorsNew ''no rows'')) = None"
    by simp
  have g: "\<not> gate_rejects sampleX exampleGET"
    by (simp add: gate_rejects_def exampleGET_def)
  have u: "unwritten NewRecorder \<and> \<not> wrote (DoHeaderSet ''X-Trace'' ''1'' (Return None))"
    by (simp add: unwritten_def NewRecorder_def)
  note t = opaque_error_response [OF a b g, of "recorderW sampleX"
        "\<lambda>q. DoHeaderSet ''X-Trace'' ''1'' (Return None)" NewRecorder NewRecorder]
  have same: "sink (ServeHTTP (recorderW sampleX) sampleX
      (\<lambda>q. returning (Some (ErrorsNew ''dial tcp 10.0.0.7:5432: refused''))
              (DoHeaderSet ''X-Trace'' ''1'' (Return None))) NewRecorder exampleGET)
   = sink (ServeHTTP (recorderW sampleX) sampleX
      (\<lambda>q. returning (Some (Errorf ''query'' (ErrorsNew ''no rows'')))
              (DoHeaderSet ''X-Trace'' ''1'' (Return None))) NewRecorder exampleGET)"
    by (rule conjunct1 [OF t])
  have seen: "Result_StatusCode (sink (ServeHTTP (recorderW sampleX) sampleX
      (\<lambda>q. returning (Some (ErrorsNew ''dial tcp 10.0.0.7:5432: refused''))
              (DoHeaderSet ''X-Trace'' ''1'' (Return None))) NewRecorder exampleGET)) = 500
   \<and> Result_Body (sink (ServeHTTP (recorderW sampleX) sampleX
      (\<lambda>q. returning (Some (ErrorsNew ''dial tcp 10.0.0.7:5432: refused''))
              (DoHeaderSet ''X-Trace'' ''1'' (Return None))) NewRecorder exampleGET))
     = sample_Encode [''Internal Server Error'']"
    using conjunct2 [OF t] u by (simp add: sampleX_sel)
  show ?thesis
    by (rule conjI [OF same seen])
qed

text \<open>
  C3 as stated fails for a handler that writes before it fails: after \<open>Write("hi")\<close> the
  status 200 is sent, the later \<open>WriteHeader(500)\<close> changes nothing, and the error body
  follows the handler's bytes.
\<close>

theorem opaque_error_counterexample:
  "Result_StatusCode (sink (ServeHTTP (recorderW sampleX) sampleX
      (\<lambda>r. DoWrite ''hi'' (\<lambda>res. Return (Some (ErrorsNew ''boom''))))
      NewRecorder exampleGET)) = 200
   \<and> Result_Body (sink (ServeHTTP (recorderW sampleX) sampleX
      (\<lambda>r. DoWrite ''hi'' (\<lambda>res. Return (Some (ErrorsNew ''boom''))))
      NewRecorder exampleGET)) = ''hi'' @ sample_Encode [''Internal Server Error'']"
  by (simp add: ServeHTTP_def gate_rejects_def exampleGET_def handler_Error_def EncodeJSON_def
      tracked_sel responseWriter_Write_def responseWriter_WriteHeader_def recorderW_sel
      recorder_Write_def recorder_writeHeader_def recorder_WriteHeader_def recorder_HeaderSet_def
      NewRecorder_def Result_Body_def Result_StatusCode_def errors_As_opt_def Let_def
      sampleX_def StatusText_def)

section \<open>The error responder\<close>

text \<open>
  C8. \<open>Error\<close> calls \<open>WriteHeader\<close> before it sets \<open>Content-Type\<close>. The header the
  client gets is the one frozen by \<open>WriteHeader\<close>: for the fallback response of a silent
  handler the header map ends up holding the JSON content type, and the response does not
  carry it.
\<close>

theorem Error_content_type_set_too_late:
  "Result_Header (sink (ServeHTTP (recorderW sampleX) sampleX (\<lambda>r. Return None)
       NewRecorder exampleGET)) ''Content-Type'' = None
   \<and> HeaderMap (sink (ServeHTTP (recorderW sampleX) sampleX (\<lambda>r. Return None)
       NewRecorder exampleGET)) ''Content-Type'' = Some ''application/json; charset=utf-8''
   \<and> Result_StatusCode (sink (ServeHTTP (recorderW sampleX) sampleX (\<lambda>r. Return None)
       NewRecorder exampleGET)) = 501"
  by (simp add: ServeHTTP_def gate_rejects_def exampleGET_def handler_Error_def EncodeJSON_def
      tracked_sel responseWriter_Write_def responseWriter_WriteHeader_def recorderW_sel
      recorder_Write_def recorder_writeHeader_def recorder_WriteHeader_def recorder_HeaderSet_def
      NewRecorder_def Result_Header_def Result_StatusCode_def)

section \<open>DecodeJSON\<close>

text \<open>
  C9, as the code has it. When decoding fails, \<open>DecodeJSON\<close> returns an \<open>*apiError\<close> with
  status 400 whose cause is the decoder's error and whose list of user-facing messages is
  empty, and no value; when decoding succeeds it returns nil and the value.
\<close>

theorem DecodeJSON_wraps_cause:
  "(dec body = Inl c \<longrightarrow>
      (\<exists>a. fst (DecodeJSON dec body) = Some (IsAPIError a)
           \<and> StatusCode a = 400 \<and> Unwrap a = Some c \<and> Errors a = [])
      \<and> snd (DecodeJSON dec body) = None)
   \<and> (dec body = Inr v \<longrightarrow> DecodeJSON dec body = (None, Some v))"
  by (simp add: DecodeJSON_def NewAPIError_def StatusCode_def Unwrap_def Errors_def)

theorem DecodeJSON_wraps_cause_witness:
  "sample_Decode ''{'' = Inl (ErrorsNew ''unexpected EOF'')
   \<and> (\<exists>a. fst (DecodeJSON sample_Decode ''{'') = Some (IsAPIError a)
           \<and> StatusCode a = 400 \<and> Unwrap a = Some (ErrorsNew ''unexpected EOF'') \<and> Errors a = [])
   \<and> sample_Decode ''{}'' = Inr ()
   \<and> DecodeJSON sample_Decode ''{}'' = (None, Some ())"
proof -
  have a: "sample_Decode ''{'' = Inl (ErrorsNew ''unexpected EOF'')"
    by (simp add: sample_Decode_def)
  have b: "sample_Decode ''{}'' = Inr ()"
    by (simp add: sample_Decode_def)
  show ?thesis
    using DecodeJSON_wraps_cause [of sample_Decode "''{''" "ErrorsNew ''unexpected EOF''" "()"]
      DecodeJSON_wraps_cause [of sample_Decode "''{}''" "ErrorsNew ''unexpected EOF''" "()"] a b
    by simp
qed

text \<open>
  C9 as stated fails: the error carries no message "malformed request body", and a
  handler that returns it makes the dispatcher send the encoding of the empty list.
\<close>

theorem DecodeJSON_message_counterexample:
  "fst (DecodeJSON sample_Decode ''{'')
     = Some (IsAPIError (ApiError 400 (Some (ErrorsNew ''unexpected EOF'')) []))
   \<and> Errors (ApiError 400 (Some (ErrorsNew ''unexpected EOF'')) []) \<noteq> [''malformed request body'']
   \<and> Result_Body (sink (ServeHTTP (recorderW sampleX) sampleX
        (\<lambda>r. Return (fst (DecodeJSON sample_Decode ''{''))) NewRecorder exampleGET))
     = sample_Encode []"
  by (simp add: DecodeJSON_def sample_Decode_def NewAPIError_def Errors_def
      ServeHTTP_def gate_rejects_def exampleGET_def handler_Error_def EncodeJSON_def
      tracked_sel responseWriter_Write_def responseWriter_WriteHeader_def recorderW_sel
      recorder_Write_def recorder_writeHeader_def recorder_WriteHeader_def recorder_HeaderSet_def
      NewRecorder_def Result_Body_def errors_As_opt_def Let_def StatusCode_def sampleX_def)

section \<open>The timeout watcher\<close>

text \<open>
  C7, as the code has it. When the watcher wakes up and \<open>ctx.Err()\<close> is \<open>Canceled\<close> it
  leaves the sink as it is and logs nothing. When it is \<open>DeadlineExceeded\<close> the watcher
  calls \<open>Error\<close> with 429 and the message "request took too long to complete"; when
  nothing was written to the response before, the client sees 429 and the encoding of that
  message, and the status stays 429 whatever the handler and the dispatcher call on the
  recorder afterwards.
\<close>

theorem watcher_outcomes:
  "watcher W X w (Some Canceled) = (w, [])
   \<and> fst (watcher W X w (Some DeadlineExceeded))
       = fst (API_Error W X w ''request took too long to complete'' 429)
   \<and> (unwritten v \<longrightarrow>
        Result_StatusCode (fst (watcher (recorderW X) X v (Some DeadlineExceeded))) = 429
        \<and> Result_Body (fst (watcher (recorderW X) X v (Some DeadlineExceeded)))
          = json_Encode_Message X ''request took too long to complete''
        \<and> Result_StatusCode (snd (run (recorderW X) p
              (fst (watcher (recorderW X) X v (Some DeadlineExceeded))))) = 429)"
proof -
  have obs: "Result_StatusCode (fst (watcher (recorderW X) X v (Some DeadlineExceeded))) = 429
        \<and> Result_Body (fst (watcher (recorderW X) X v (Some DeadlineExceeded)))
          = json_Encode_Message X ''request took too long to complete''
        \<and> Result_StatusCode (snd (run (recorderW X) p
              (fst (watcher (recorderW X) X v (Some DeadlineExceeded))))) = 429"
    if u: "unwritten v"
  proof -
    let ?w = "fst (API_Error (recorderW X) X v ''request took too long to complete'' 429)"
    have f: "fst (watcher (recorderW X) X v (Some DeadlineExceeded)) = ?w"
      by (simp add: watcher_def split_beta)
    have c: "Code ?w = 429" "Body ?w = json_Encode_Message X ''request took too long to complete''"
      "wroteHeader ?w" "\<not> panicked ?w"
      using API_Error_recorder [OF u, of 429 X "''request took too long to complete''"] by simp_all
    have k: "Code (snd (run (recorderW X) p ?w)) = 429"
      using recorder_committed_run [OF c(3,4), of X p] c(1) by simp
    show ?thesis
      by (simp add: f c k Result_StatusCode_def Result_Body_def)
  qed
  show ?thesis
    using obs by (simp add: watcher_def split_beta)
qed

theorem watcher_outcomes_witness:
  "unwritten NewRecorder
   \<and> watcher (recorderW sampleX) sampleX NewRecorder (Some Canceled) = (NewRecorder, [])
   \<and> Result_StatusCode (fst (watcher (recorderW sampleX) sampleX NewRecorder (Some DeadlineExceeded))) = 429
   \<and> Result_Body (fst (watcher (recorderW sampleX) sampleX NewRecorder (Some DeadlineExceeded)))
     = sample_Encode_Message ''request took too long to complete''
   \<and> Result_StatusCode (snd (run (recorderW sampleX) (DoWriteHeader 501 (DoWrite ''late'' (\<lambda>res. Return None)))
        (fst (watcher (recorderW sampleX) sampleX NewRecorder (Some DeadlineExceeded))))) = 429"
proof -
  have u: "unwritten NewRecorder"
    by (simp add: unwritten_def NewRecorder_def)
  note t = watcher_outcomes [of "recorderW sampleX" sampleX NewRecorder NewRecorder
        "DoWriteHeader 501 (DoWrite ''late'' (\<lambda>res. Return None))"]
  from conjunct2 [OF conjunct2 [OF t]] u show ?thesis
    by (intro conjI) (simp_all add: sampleX_sel conjunct1 [OF t])
qed

text \<open>
  C7 as stated fails for a handler that has written before the deadline passes: after
  \<open>Write("hi")\<close> the status 200 is sent, the watcher's \<open>WriteHeader(429)\<close> changes
  nothing, and its message follows the handler's bytes.
\<close>

theorem watcher_after_write_counterexample:
  "Result_StatusCode (fst (watcher (recorderW sampleX) sampleX
      (snd (run (recorderW sampleX) (DoWrite ''hi'' (\<lambda>res. Return None)) NewRecorder))
      (Some DeadlineExceeded))) = 200
   \<and> Result_Body (fst (watcher (recorderW sampleX) sampleX
      (snd (run (recorderW sampleX) (DoWrite ''hi'' (\<lambda>res. Return None)) NewRecorder))
      (Some DeadlineExceeded)))
     = ''hi'' @ sample_Encode_Message ''request took too long to complete''"
  by (simp add: watcher_def API_Error_def recorderW_sel recorder_Write_def
      recorder_writeHeader_def recorder_WriteHeader_def recorder_HeaderSet_def
      NewRecorder_def Result_StatusCode_def Result_Body_def sampleX_sel)

end
